theory Spec2Isabelle
  imports Complex_Main
begin

section \<open>Machine operator monitor: the data model\<close>

text \<open>
  The development follows the monitor's source file (the one that declares \<open>Status\<close>,
  \<open>Operator\<close>, \<open>Result\<close>, \<open>detectStatus\<close> and \<open>frameRunner\<close>). Go structs are
  records, the loop over the faces of a frame and the loop over the frames are recursive
  functions, and a nil pointer dereference is an error value.
\<close>

subsection \<open>Floating point values that are only compared\<close>

text \<open>
  The source compares \<open>float64\<close> values with constants and with each other and never
  does arithmetic on them in the functions modelled here (the one division, in
  \<open>getPerformanceInfo\<close>, is a parameter there). A value is a real number, one of the
  two infinities, or NaN; every finite IEEE double is a real, so a statement for all
  reals covers all doubles. Comparisons with NaN are false, as in Go.
\<close>

datatype float64 = Finite real | PosInf | NegInf | NaN

fun f64_less :: "float64 \<Rightarrow> float64 \<Rightarrow> bool" where
  "f64_less NaN _ = False"
| "f64_less _ NaN = False"
| "f64_less (Finite a) (Finite b) = (a < b)"
| "f64_less (Finite a) PosInf = True"
| "f64_less (Finite a) NegInf = False"
| "f64_less PosInf _ = False"
| "f64_less NegInf (Finite b) = True"
| "f64_less NegInf PosInf = True"
| "f64_less NegInf NegInf = False"

text \<open>Go's \<open>a > b\<close> on floats.\<close>

definition f64_greater :: "float64 \<Rightarrow> float64 \<Rightarrow> bool" where
  "f64_greater a b = f64_less b a"

subsection \<open>Time\<close>

text \<open>
  A \<open>time.Time\<close> is the number of nanoseconds since Go's zero time (the value of an
  uninitialised \<open>time.Time\<close> field, 1 January of year 1); a \<open>time.Duration\<close> is an
  \<open>int64\<close> count of nanoseconds. \<open>Time.Sub\<close> saturates at the two ends of \<open>int64\<close>,
  and \<open>time.Since t\<close> is \<open>time.Now().Sub(t)\<close>: the clock reading is an argument.
\<close>

type_synonym time = int
type_synonym duration = int

definition maxDuration :: duration where
  "maxDuration = 2 ^ 63 - 1"

definition minDuration :: duration where
  "minDuration = - (2 ^ 63)"

definition time_Sub :: "time \<Rightarrow> time \<Rightarrow> duration" where
  "time_Sub t u =
     (let d = t - u in
      if d > maxDuration then maxDuration
      else if d < minDuration then minDuration
      else d)"

definition time_Since :: "time \<Rightarrow> time \<Rightarrow> duration" where
  "time_Since clock t = time_Sub clock t"

definition Second :: duration where
  "Second = 1000000000"

subsection \<open>Configuration, status, operator, result\<close>

text \<open>
  The package-level flag variables the modelled functions read. The defaults of
  \<open>init\<close> are 5 seconds for both timeouts and 0.5 for the confidence threshold.
\<close>

record Config =
  sentConfidence :: float64
  angryTimeout :: duration
  watchTimeout :: duration

definition defaultConfig :: Config where
  "defaultConfig =
     \<lparr>sentConfidence = Finite 0.5, angryTimeout = 5 * Second, watchTimeout = 5 * Second\<rparr>"

record Status =
  IsWatching :: bool
  IsAngry :: bool
  checked :: bool

text \<open>\<open>new(Status)\<close>: every field has its zero value.\<close>

definition new_Status :: Status where
  "new_Status = \<lparr>IsWatching = False, IsAngry = False, checked = False\<rparr>"

text \<open>
  \<open>main\<close> gives the operator two distinct, non-nil \<open>Status\<close> objects and
  \<open>frameRunner\<close> only copies booleans into them, so the two pointers are modelled as
  the two values.
\<close>

record Operator =
  now :: Status
  prev :: Status
  timeStoppedWatching :: time
  timeStartAngry :: time

text \<open>The operator \<open>main\<close> builds: \<open>new(Operator)\<close> with two \<open>new(Status)\<close>.\<close>

definition new_Operator :: Operator where
  "new_Operator =
     \<lparr>now = new_Status, prev = new_Status, timeStoppedWatching = 0, timeStartAngry = 0\<rparr>"

text \<open>\<open>Result.status\<close> is a pointer that can be nil: \<open>None\<close>.\<close>

record Result =
  status :: "Status option"
  AlertWatching :: bool
  AlertAngry :: bool

definition new_Result :: Result where
  "new_Result = \<lparr>status = None, AlertWatching = False, AlertAngry = False\<rparr>"

section \<open>One cycle of the frame worker\<close>

text \<open>
  The part of the body of \<open>frameRunner\<close>'s loop that follows \<open>detectStatus\<close>: the
  alerts start false, a checked status is copied into \<open>o.now\<close>, the two edges record
  the clock, the two sustained conditions compare the elapsed time, the result is
  built, and \<open>o.prev\<close> receives the status's two booleans, checked or not.

  The clock is read at most once for each condition in a cycle, because the edge
  (\<open>time.Now()\<close>) and the sustained branch (\<open>time.Since\<close>) of a condition exclude
  each other: \<open>clockW\<close> is the reading in the watching branches, \<open>clockA\<close> the one in
  the angry branches.
\<close>

definition frameCycle :: "Config \<Rightarrow> Operator \<Rightarrow> Status \<Rightarrow> time \<Rightarrow> time \<Rightarrow> Operator \<times> Result" where
  "frameCycle cfg o0 st clockW clockA =
     (let (o4, alertWatching, alertAngry) =
        (if checked st then
           let o1 = o0\<lparr>now := (now o0)\<lparr>IsWatching := IsWatching st, IsAngry := IsAngry st\<rparr>\<rparr>;
               o2 = (if IsWatching (prev o1) \<and> \<not> IsWatching (now o1)
                     then o1\<lparr>timeStoppedWatching := clockW\<rparr> else o1);
               o3 = (if \<not> IsAngry (prev o2) \<and> IsAngry (now o2)
                     then o2\<lparr>timeStartAngry := clockA\<rparr> else o2);
               aw = (if \<not> IsWatching (prev o3) \<and> \<not> IsWatching (now o3)
                     then time_Since clockW (timeStoppedWatching o3) > watchTimeout cfg
                     else False);
               aa = (if IsAngry (prev o3) \<and> IsAngry (now o3)
                     then time_Since clockA (timeStartAngry o3) > watchTimeout cfg
                     else False)
           in (o3, aw, aa)
         else (o0, False, False));
         result = \<lparr>status = Some st, AlertWatching = alertWatching, AlertAngry = alertAngry\<rparr>;
         o5 = o4\<lparr>prev := (prev o4)\<lparr>IsWatching := IsWatching st, IsAngry := IsAngry st\<rparr>\<rparr>
      in (o5, result))"

section \<open>Classifying the faces of a frame\<close>

subsection \<open>Rectangles of Go's \<open>image\<close> package\<close>

record Rectangle =
  Min_X :: int
  Min_Y :: int
  Max_X :: int
  Max_Y :: int

text \<open>\<open>image.Rect\<close> orders the coordinates of each axis.\<close>

definition image_Rect :: "int \<Rightarrow> int \<Rightarrow> int \<Rightarrow> int \<Rightarrow> Rectangle" where
  "image_Rect x0 y0 x1 y1 =
     \<lparr>Min_X = (if x0 > x1 then x1 else x0), Min_Y = (if y0 > y1 then y1 else y0),
      Max_X = (if x0 > x1 then x0 else x1), Max_Y = (if y0 > y1 then y0 else y1)\<rparr>"

definition rect_Empty :: "Rectangle \<Rightarrow> bool" where
  "rect_Empty r = (Min_X r \<ge> Max_X r \<or> Min_Y r \<ge> Max_Y r)"

text \<open>\<open>Rectangle.In\<close>: an empty rectangle is in every rectangle.\<close>

definition rect_In :: "Rectangle \<Rightarrow> Rectangle \<Rightarrow> bool" where
  "rect_In r s =
     (if rect_Empty r then True
      else Min_X s \<le> Min_X r \<and> Max_X r \<le> Max_X s \<and> Min_Y s \<le> Min_Y r \<and> Max_Y r \<le> Max_Y s)"

subsection \<open>The frame and its detected faces\<close>

text \<open>
  The image matters to \<open>detectStatus\<close> through its size and through what the two
  networks answer on a region of it. The networks are external: each face rectangle
  of \<open>detectFaces\<close> comes with the values the source reads from the two forward
  passes on that region, \<open>poseRes[0].GetDoubleAt(0, 0)\<close> (layer \<open>angle_y_fc\<close>),
  \<open>poseRes[1].GetDoubleAt(0, 0)\<close> (layer \<open>angle_p_fc\<close>), and the maximum and its
  row that \<open>gocv.MinMaxLoc\<close> finds in the reshaped sentiment output.
\<close>

record Mat =
  Cols :: int
  Rows :: int

record Face =
  rect :: Rectangle
  angle_y_fc :: float64
  angle_p_fc :: float64
  confidence :: float64
  maxLoc_Y :: int

text \<open>The test that keeps a face: its rectangle is in the frame's rectangle.\<close>

definition insideFrame :: "Mat \<Rightarrow> Face \<Rightarrow> bool" where
  "insideFrame img f = rect_In (rect f) (image_Rect 0 0 (Cols img) (Rows img))"

text \<open>
  The body of the loop of \<open>detectStatus\<close> for a face that passed the test: the two
  flags are only ever set, never cleared, and \<open>checked\<close> is set.
\<close>

definition detectFace :: "Config \<Rightarrow> Status \<Rightarrow> Face \<Rightarrow> Status" where
  "detectFace cfg s f =
     (let s1 = (if (f64_greater (angle_y_fc f) (Finite (- 22.5)) \<and> f64_less (angle_y_fc f) (Finite 22.5)) \<and>
                   (f64_greater (angle_p_fc f) (Finite (- 22.5)) \<and> f64_less (angle_p_fc f) (Finite 22.5))
                then s\<lparr>IsWatching := True\<rparr> else s);
          s2 = (if f64_greater (confidence f) (sentConfidence cfg)
                then (if maxLoc_Y f = 4 then s1\<lparr>IsAngry := True\<rparr> else s1)
                else s1)
      in s2\<lparr>checked := True\<rparr>)"

fun detectLoop :: "Config \<Rightarrow> Mat \<Rightarrow> Status \<Rightarrow> Face list \<Rightarrow> Status" where
  "detectLoop cfg img s [] = s"
| "detectLoop cfg img s (f # fs) =
     (if \<not> insideFrame img f then detectLoop cfg img s fs
      else detectLoop cfg img (detectFace cfg s f) fs)"

definition detectStatus :: "Config \<Rightarrow> Mat \<Rightarrow> Face list \<Rightarrow> Status" where
  "detectStatus cfg img faces = detectLoop cfg img new_Status faces"

section \<open>The frame worker\<close>

text \<open>
  What the worker receives for one frame: the image, the faces \<open>detectFaces\<close> found
  in it, and the two clock readings of the cycle.
\<close>

record Frame =
  img :: Mat
  faces :: "Face list"
  clockWatch :: time
  clockAngry :: time

definition frameStatus :: "Config \<Rightarrow> Frame \<Rightarrow> Status" where
  "frameStatus cfg fr = detectStatus cfg (img fr) (faces fr)"

text \<open>
  \<open>frameRunner\<close> on the frames it receives before the stop signal: it returns the
  operator it leaves and the results it sent to \<open>resultsChan\<close>, in order. The same
  result goes to \<open>pubChan\<close> when publishing is on. The performance sample sent to
  \<open>perfChan\<close> is \<open>getPerformanceInfo\<close> below; it reads neither the operator nor
  the result.
\<close>

fun frameRunner :: "Config \<Rightarrow> Operator \<Rightarrow> Frame list \<Rightarrow> Operator \<times> Result list" where
  "frameRunner cfg o0 [] = (o0, [])"
| "frameRunner cfg o0 (fr # frs) =
     (let (o1, r) = frameCycle cfg o0 (frameStatus cfg fr) (clockWatch fr) (clockAngry fr);
          (o2, rs) = frameRunner cfg o1 frs
      in (o2, r # rs))"

section \<open>Rendering and publishing a result\<close>

text \<open>
  \<open>Result.String\<close> and \<open>Result.ToMQTTMessage\<close> read \<open>r.status.IsWatching\<close> and
  \<open>r.status.IsAngry\<close>: with a nil \<open>status\<close> the read panics. \<open>%v\<close> prints a
  boolean as \<open>true\<close> or \<open>false\<close>.
\<close>

datatype error = NilPointerDereference

definition fmt_bool :: "bool \<Rightarrow> string" where
  "fmt_bool b = (if b then ''true'' else ''false'')"

definition Result_String :: "Result \<Rightarrow> error + string" where
  "Result_String r =
     (case status r of
        None \<Rightarrow> Inl NilPointerDereference
      | Some s \<Rightarrow> Inr (''Watching '' @ fmt_bool (IsWatching s) @ '', Angry: '' @ fmt_bool (IsAngry s)))"

definition ToMQTTMessage :: "Result \<Rightarrow> error + string" where
  \<open>ToMQTTMessage r =
     (case status r of
        None \<Rightarrow> Inl NilPointerDereference
      | Some s \<Rightarrow> Inr (''{"Watching":'' @ fmt_bool (IsWatching s) @ '', "Angry": '' @ fmt_bool (IsAngry s) @ ''}''))\<close>

subsection \<open>The display loop of \<open>main\<close>\<close>

text \<open>
  One iteration of the \<open>monitor\<close> loop, from the \<open>select\<close> to the result label: a
  result received from \<open>resultsChan\<close> replaces the one kept (\<open>Some\<close>), the default
  branch keeps it (\<open>None\<close>); then \<open>fmt.Sprintf("%s", result)\<close> calls
  \<open>Result.String\<close>. Which branch the \<open>select\<close> takes depends on the worker's
  progress and is the input here; the signal and error branches leave the loop. The
  loop starts from \<open>new(Result)\<close>.
\<close>

fun monitor :: "Result \<Rightarrow> Result option list \<Rightarrow> (error + string) list" where
  "monitor result [] = []"
| "monitor result (polled # rest) =
     (let result' = (case polled of Some r \<Rightarrow> r | None \<Rightarrow> result)
      in Result_String result' # monitor result' rest)"

definition main_labels :: "Result option list \<Rightarrow> (error + string) list" where
  "main_labels polls = monitor new_Result polls"

subsection \<open>Performance sample\<close>

text \<open>
  \<open>getPerformanceInfo\<close> divides what each network's \<open>GetPerfProfile\<close> returns by a
  thousandth of the tick frequency. The floating point division \<open>fdiv\<close> and the four
  values read from \<open>gocv\<close> are arguments; \<open>var posePerf, sentPerf float64\<close> start at 0.
\<close>

record Perf =
  FaceNet :: float64
  SentNet :: float64
  PoseNet :: float64

definition getPerformanceInfo ::
  "(float64 \<Rightarrow> float64 \<Rightarrow> float64) \<Rightarrow> float64 \<Rightarrow> float64 \<Rightarrow> float64 \<Rightarrow> float64 \<Rightarrow> bool \<Rightarrow> Perf" where
  "getPerformanceInfo fdiv tickFrequency faceProfile sentProfile poseProfile statusChecked =
     (let freq = fdiv tickFrequency (Finite 1000);
          facePerf = fdiv faceProfile freq;
          (posePerf, sentPerf) =
            (if statusChecked then (fdiv poseProfile freq, fdiv sentProfile freq)
             else (Finite 0, Finite 0))
      in \<lparr>FaceNet = facePerf, SentNet = sentPerf, PoseNet = posePerf\<rparr>)"

section \<open>Reference notions used to state the properties\<close>

subsection \<open>Reading the telemetry payload back\<close>

text \<open>
  The repository publishes the payload and never parses it. To state the round trip,
  this is a reader for the payload's shape, a JSON object whose members are booleans
  (no escapes in the keys, spaces as the only white space): a lexer, then the members
  in order. It is not part of the program.
\<close>

datatype token = LBrace | RBrace | Colon | Comma | Str string | Word string | Unclosed

datatype lexstate = Idle | InStr string | InWord string

fun lexPayload :: "lexstate \<Rightarrow> string \<Rightarrow> token list" where
  "lexPayload Idle [] = []"
| "lexPayload (InStr acc) [] = [Unclosed]"
| "lexPayload (InWord acc) [] = [Word (rev acc)]"
| \<open>lexPayload Idle (c # cs) =
     (if c = CHR ''{'' then LBrace # lexPayload Idle cs
      else if c = CHR ''}'' then RBrace # lexPayload Idle cs
      else if c = CHR '':'' then Colon # lexPayload Idle cs
      else if c = CHR '','' then Comma # lexPayload Idle cs
      else if c = CHR '' '' then lexPayload Idle cs
      else if c = CHR 0x22 then lexPayload (InStr []) cs
      else lexPayload (InWord [c]) cs)\<close>
| \<open>lexPayload (InStr acc) (c # cs) =
     (if c = CHR 0x22 then Str (rev acc) # lexPayload Idle cs else lexPayload (InStr (c # acc)) cs)\<close>
| \<open>lexPayload (InWord acc) (c # cs) =
     (if c = CHR ''}'' then Word (rev acc) # RBrace # lexPayload Idle cs
      else if c = CHR '','' then Word (rev acc) # Comma # lexPayload Idle cs
      else if c = CHR '':'' then Word (rev acc) # Colon # lexPayload Idle cs
      else if c = CHR '' '' then Word (rev acc) # lexPayload Idle cs
      else if c = CHR ''{'' \<or> c = CHR 0x22 then [Unclosed]
      else lexPayload (InWord (c # acc)) cs)\<close>

definition readBool :: "string \<Rightarrow> bool option" where
  "readBool w = (if w = ''true'' then Some True else if w = ''false'' then Some False else None)"

fun readMembers :: "token list \<Rightarrow> (string \<times> bool) list option" where
  "readMembers (Str k # Colon # Word w # RBrace # []) =
     (case readBool w of None \<Rightarrow> None | Some b \<Rightarrow> Some [(k, b)])"
| "readMembers (Str k # Colon # Word w # Comma # rest) =
     (case readBool w of
        None \<Rightarrow> None
      | Some b \<Rightarrow> (case readMembers rest of None \<Rightarrow> None | Some ms \<Rightarrow> Some ((k, b) # ms)))"
| "readMembers _ = None"

definition readPayload :: "string \<Rightarrow> (string \<times> bool) list option" where
  "readPayload msg =
     (case lexPayload Idle msg of
        LBrace # RBrace # [] \<Rightarrow> Some []
      | LBrace # ts \<Rightarrow> readMembers ts
      | _ \<Rightarrow> None)"

subsection \<open>A condition held since its transition edge\<close>

text \<open>
  The two conditions of the alerts, as a frame's classification reports them, and
  the specification's reading of "the condition has held continuously for strictly
  longer than the timeout since the last transition edge": the run is the longest
  suffix of the cycles on which the condition holds, its first cycle is the edge, and
  the time from that cycle's clock reading to the last one's exceeds the timeout.
\<close>

definition frameAngry :: "Config \<Rightarrow> Frame \<Rightarrow> bool" where
  "frameAngry cfg fr = IsAngry (frameStatus cfg fr)"

definition frameNotWatching :: "Config \<Rightarrow> Frame \<Rightarrow> bool" where
  "frameNotWatching cfg fr = (\<not> IsWatching (frameStatus cfg fr))"

definition frameChecked :: "Config \<Rightarrow> Frame \<Rightarrow> bool" where
  "frameChecked cfg fr = checked (frameStatus cfg fr)"

definition conditionRun :: "(Frame \<Rightarrow> bool) \<Rightarrow> Frame list \<Rightarrow> Frame list" where
  "conditionRun cond frs = rev (takeWhile cond (rev frs))"

definition heldLongerThan :: "(Frame \<Rightarrow> bool) \<Rightarrow> (Frame \<Rightarrow> time) \<Rightarrow> duration \<Rightarrow> Frame list \<Rightarrow> bool" where
  "heldLongerThan cond clock timeout frs =
     (conditionRun cond frs \<noteq> [] \<and>
      time_Sub (clock (last (conditionRun cond frs))) (clock (hd (conditionRun cond frs))) > timeout)"

section \<open>Concrete inputs\<close>

text \<open>
  A 640 by 480 frame and faces in it: one facing the machine and calm, one turned
  away (yaw 40 degrees), one facing and angry (class 4 with confidence 0.9), one turned
  away and angry. \<open>T0\<close> is a clock reading in the year 2019.
\<close>

definition frame640 :: Mat where
  "frame640 = \<lparr>Cols = 640, Rows = 480\<rparr>"

definition facing :: Face where
  "facing = \<lparr>rect = image_Rect 100 80 260 240, angle_y_fc = Finite 3, angle_p_fc = Finite (- 4),
              confidence = Finite 0.9, maxLoc_Y = 0\<rparr>"

definition away :: Face where
  "away = \<lparr>rect = image_Rect 300 80 460 240, angle_y_fc = Finite 40, angle_p_fc = Finite (- 4),
            confidence = Finite 0.9, maxLoc_Y = 0\<rparr>"

definition facingAngry :: Face where
  "facingAngry = \<lparr>rect = image_Rect 100 80 260 240, angle_y_fc = Finite 3, angle_p_fc = Finite (- 4),
                   confidence = Finite 0.9, maxLoc_Y = 4\<rparr>"

definition awayAngry :: Face where
  "awayAngry = \<lparr>rect = image_Rect 300 80 460 240, angle_y_fc = Finite 40, angle_p_fc = Finite (- 4),
                 confidence = Finite 0.9, maxLoc_Y = 4\<rparr>"

definition T0 :: time where
  "T0 = 63700000000 * Second"

text \<open>The frame with the given faces, both clock readings \<open>n\<close> seconds after \<open>T0\<close>.\<close>

definition frameAt :: "int \<Rightarrow> Face list \<Rightarrow> Frame" where
  "frameAt n fs = \<lparr>img = frame640, faces = fs, clockWatch = T0 + n * Second, clockAngry = T0 + n * Second\<rparr>"

text \<open>A configuration whose two timeouts differ: 10 seconds angry, 5 seconds not watching.\<close>

definition config_10_5 :: Config where
  "config_10_5 = \<lparr>sentConfidence = Finite 0.5, angryTimeout = 10 * Second, watchTimeout = 5 * Second\<rparr>"

section \<open>Facts about one cycle\<close>

text \<open>The definitions a run on concrete frames unfolds.\<close>

lemmas run_defs =
  frameCycle_def frameStatus_def detectStatus_def detectFace_def insideFrame_def rect_In_def
  rect_Empty_def image_Rect_def defaultConfig_def new_Operator_def new_Status_def
  Second_def time_Since_def time_Sub_def maxDuration_def minDuration_def f64_greater_def Let_def

text \<open>
  A cycle on an unchecked status keeps \<open>o.now\<close> and both markers and reports no
  alert; it writes the status's two booleans into \<open>o.prev\<close>.
\<close>

lemma frameCycle_unchecked:
  "\<not> checked st \<Longrightarrow>
   frameCycle cfg o0 st cw ca =
     (o0\<lparr>prev := (prev o0)\<lparr>IsWatching := IsWatching st, IsAngry := IsAngry st\<rparr>\<rparr>,
      \<lparr>status = Some st, AlertWatching = False, AlertAngry = False\<rparr>)"
  by (simp add: frameCycle_def)

lemma frameCycle_status: "status (snd (frameCycle cfg o0 st cw ca)) = Some st"
  by (simp add: frameCycle_def Let_def split: prod.splits)

text \<open>The two alerts of a cycle, in terms of the operator before the cycle.\<close>

lemma frameCycle_AlertAngry:
  "AlertAngry (snd (frameCycle cfg o0 st cw ca)) =
     (checked st \<and> IsAngry (prev o0) \<and> IsAngry st \<and>
      time_Since ca (timeStartAngry o0) > watchTimeout cfg)"
  by (auto simp add: frameCycle_def Let_def)

lemma frameCycle_AlertWatching:
  "AlertWatching (snd (frameCycle cfg o0 st cw ca)) =
     (checked st \<and> \<not> IsWatching (prev o0) \<and> \<not> IsWatching st \<and>
      time_Since cw (timeStoppedWatching o0) > watchTimeout cfg)"
  by (auto simp add: frameCycle_def Let_def)

lemma frameCycle_prev:
  "IsWatching (prev (fst (frameCycle cfg o0 st cw ca))) = IsWatching st"
  "IsAngry (prev (fst (frameCycle cfg o0 st cw ca))) = IsAngry st"
  by (auto simp add: frameCycle_def Let_def)

lemma frameCycle_timeStartAngry:
  "timeStartAngry (fst (frameCycle cfg o0 st cw ca)) =
     (if checked st \<and> \<not> IsAngry (prev o0) \<and> IsAngry st then ca else timeStartAngry o0)"
  by (auto simp add: frameCycle_def Let_def)

lemma frameCycle_timeStoppedWatching:
  "timeStoppedWatching (fst (frameCycle cfg o0 st cw ca)) =
     (if checked st \<and> IsWatching (prev o0) \<and> \<not> IsWatching st then cw else timeStoppedWatching o0)"
  by (auto simp add: frameCycle_def Let_def)

lemma frameCycle_now:
  "now (fst (frameCycle cfg o0 st cw ca)) =
     (if checked st then (now o0)\<lparr>IsWatching := IsWatching st, IsAngry := IsAngry st\<rparr> else now o0)"
  by (auto simp add: frameCycle_def Let_def)

section \<open>Facts about the classification\<close>

lemma detectFace_checked: "checked (detectFace cfg s f)"
  by (simp add: detectFace_def Let_def)

lemma detectFace_IsWatching:
  "IsWatching (detectFace cfg s f) = (IsWatching s \<or> IsWatching (detectFace cfg new_Status f))"
  by (simp add: detectFace_def new_Status_def Let_def)

lemma detectFace_IsAngry:
  "IsAngry (detectFace cfg s f) = (IsAngry s \<or> IsAngry (detectFace cfg new_Status f))"
  by (simp add: detectFace_def new_Status_def Let_def)

lemma detectLoop_IsWatching:
  "IsWatching (detectLoop cfg m s fs) =
     (IsWatching s \<or> (\<exists>f \<in> set fs. insideFrame m f \<and> IsWatching (detectFace cfg new_Status f)))"
proof (induction fs arbitrary: s)
  case Nil
  then show ?case by simp
next
  case (Cons f fs)
  show ?case
    using Cons.IH [of "detectFace cfg s f"] Cons.IH [of s] detectFace_IsWatching [of cfg s f]
    by auto
qed

lemma detectLoop_IsAngry:
  "IsAngry (detectLoop cfg m s fs) =
     (IsAngry s \<or> (\<exists>f \<in> set fs. insideFrame m f \<and> IsAngry (detectFace cfg new_Status f)))"
proof (induction fs arbitrary: s)
  case Nil
  then show ?case by simp
next
  case (Cons f fs)
  show ?case
    using Cons.IH [of "detectFace cfg s f"] Cons.IH [of s] detectFace_IsAngry [of cfg s f]
    by auto
qed

lemma detectLoop_checked:
  "checked (detectLoop cfg m s fs) = (checked s \<or> (\<exists>f \<in> set fs. insideFrame m f))"
  by (induction fs arbitrary: s) (auto simp: detectFace_checked)

lemma detectStatus_single:
  "insideFrame m f \<Longrightarrow> detectStatus cfg m [f] = detectFace cfg new_Status f"
  by (simp add: detectStatus_def)

text \<open>A status that is not checked has neither flag: no face set anything.\<close>

lemma detectStatus_unchecked:
  "\<not> checked (detectStatus cfg m fs) \<Longrightarrow>
   \<not> IsWatching (detectStatus cfg m fs) \<and> \<not> IsAngry (detectStatus cfg m fs)"
  by (auto simp: detectStatus_def detectLoop_checked detectLoop_IsWatching detectLoop_IsAngry
      new_Status_def)

lemma within_iff:
  "(f64_greater a (Finite (- 22.5)) \<and> f64_less a (Finite 22.5)) =
   (\<exists>y. a = Finite y \<and> - 22.5 < y \<and> y < 22.5)"
  by (cases a) (auto simp: f64_greater_def)

section \<open>Facts about a run of the worker\<close>

lemma frameRunner_snoc:
  "frameRunner cfg o0 (frs @ [fr]) =
     (let (o1, rs) = frameRunner cfg o0 frs;
          (o2, r) = frameCycle cfg o1 (frameStatus cfg fr) (clockWatch fr) (clockAngry fr)
      in (o2, rs @ [r]))"
  by (induction frs arbitrary: o0) (auto simp: Let_def split: prod.splits)

lemma frameRunner_snoc_fst:
  "fst (frameRunner cfg o0 (frs @ [fr])) =
     fst (frameCycle cfg (fst (frameRunner cfg o0 frs)) (frameStatus cfg fr) (clockWatch fr) (clockAngry fr))"
  by (simp add: frameRunner_snoc Let_def split: prod.splits)

lemma frameRunner_snoc_last:
  "last (snd (frameRunner cfg o0 (frs @ [fr]))) =
     snd (frameCycle cfg (fst (frameRunner cfg o0 frs)) (frameStatus cfg fr) (clockWatch fr) (clockAngry fr))"
  by (simp add: frameRunner_snoc Let_def split: prod.splits)

lemma conditionRun_Nil [simp]: "conditionRun c [] = []"
  by (simp add: conditionRun_def)

lemma conditionRun_snoc:
  "conditionRun c (frs @ [fr]) = (if c fr then conditionRun c frs @ [fr] else [])"
  by (simp add: conditionRun_def)

lemma conditionRun_empty_iff:
  "(conditionRun c frs = []) = (frs = [] \<or> \<not> c (last frs))"
  by (induction frs rule: rev_induct) (simp_all add: conditionRun_snoc)

lemma conditionRun_all: "list_all c (conditionRun c frs)"
  by (induction frs rule: rev_induct) (simp_all add: conditionRun_snoc)

lemma frameAngry_checked: "frameAngry cfg fr \<Longrightarrow> frameChecked cfg fr"
  using detectStatus_unchecked [of cfg "img fr" "faces fr"]
  by (auto simp: frameAngry_def frameChecked_def frameStatus_def)

text \<open>
  After a run from the operator of \<open>main\<close>, \<open>o.prev\<close> holds what the last frame's
  status reported, checked or not.
\<close>

lemma prev_after_run:
  "IsAngry (prev (fst (frameRunner cfg new_Operator frs))) = (frs \<noteq> [] \<and> frameAngry cfg (last frs))"
  "IsWatching (prev (fst (frameRunner cfg new_Operator frs))) = (frs \<noteq> [] \<and> \<not> frameNotWatching cfg (last frs))"
  by (induction frs rule: rev_induct)
     (simp_all add: frameRunner_snoc_fst frameCycle_prev frameAngry_def frameNotWatching_def
        new_Operator_def new_Status_def)

text \<open>
  While the last frame is angry, \<open>timeStartAngry\<close> is the reading of the first frame
  of the current run of angry frames.
\<close>

lemma angry_marker_after_run:
  "frs \<noteq> [] \<Longrightarrow> frameAngry cfg (last frs) \<Longrightarrow>
   timeStartAngry (fst (frameRunner cfg new_Operator frs)) =
     clockAngry (hd (conditionRun (frameAngry cfg) frs))"
proof (induction frs rule: rev_induct)
  case Nil
  then show ?case by simp
next
  case (snoc fr frs)
  from snoc.prems have a: "frameAngry cfg fr" by simp
  then have c: "checked (frameStatus cfg fr)" "IsAngry (frameStatus cfg fr)"
    using frameAngry_checked [of cfg fr] by (simp_all add: frameChecked_def frameAngry_def)
  show ?case
  proof (cases "frs \<noteq> [] \<and> frameAngry cfg (last frs)")
    case True
    then have "conditionRun (frameAngry cfg) frs \<noteq> []"
      by (simp add: conditionRun_empty_iff)
    with True a c snoc.IH show ?thesis
      by (simp add: frameRunner_snoc_fst frameCycle_timeStartAngry prev_after_run conditionRun_snoc)
  next
    case False
    then have "conditionRun (frameAngry cfg) frs = []"
      by (simp add: conditionRun_empty_iff)
    with False a c show ?thesis
      by (simp add: frameRunner_snoc_fst frameCycle_timeStartAngry prev_after_run conditionRun_snoc)
  qed
qed

text \<open>
  When the current run of not-watching frames follows a watching frame and begins
  with a checked frame, \<open>timeStoppedWatching\<close> is the reading of that first frame.
\<close>

lemma watch_marker_after_run:
  "conditionRun (frameNotWatching cfg) frs \<noteq> [] \<Longrightarrow>
   length (conditionRun (frameNotWatching cfg) frs) < length frs \<Longrightarrow>
   frameChecked cfg (hd (conditionRun (frameNotWatching cfg) frs)) \<Longrightarrow>
   timeStoppedWatching (fst (frameRunner cfg new_Operator frs)) =
     clockWatch (hd (conditionRun (frameNotWatching cfg) frs))"
proof (induction frs rule: rev_induct)
  case Nil
  then show ?case by simp
next
  case (snoc fr frs)
  from snoc.prems(1) have n: "frameNotWatching cfg fr"
    by (simp add: conditionRun_snoc split: if_splits)
  then have w: "\<not> IsWatching (frameStatus cfg fr)"
    by (simp add: frameNotWatching_def)
  show ?case
  proof (cases "conditionRun (frameNotWatching cfg) frs = []")
    case True
    with snoc.prems n have "frs \<noteq> []" and ch: "checked (frameStatus cfg fr)"
      by (auto simp: conditionRun_snoc frameChecked_def)
    with True have "\<not> frameNotWatching cfg (last frs)"
      by (simp add: conditionRun_empty_iff)
    with True n w ch \<open>frs \<noteq> []\<close> show ?thesis
      by (simp add: frameRunner_snoc_fst frameCycle_timeStoppedWatching prev_after_run conditionRun_snoc)
  next
    case False
    then have l: "frs \<noteq> []" "frameNotWatching cfg (last frs)"
      by (simp_all add: conditionRun_empty_iff)
    from False snoc.prems n
    have "timeStoppedWatching (fst (frameRunner cfg new_Operator frs)) =
            clockWatch (hd (conditionRun (frameNotWatching cfg) frs))"
      by (intro snoc.IH) (simp_all add: conditionRun_snoc)
    with False n w l show ?thesis
      by (simp add: frameRunner_snoc_fst frameCycle_timeStoppedWatching prev_after_run conditionRun_snoc)
  qed
qed

lemma conditionRun_full_iff:
  "(length (conditionRun c frs) < length frs) = (\<not> list_all c frs)"
proof (induction frs rule: rev_induct)
  case Nil
  then show ?case by simp
next
  case (snoc fr frs)
  have "length (conditionRun c frs) \<le> length frs"
    by (simp add: conditionRun_def) (metis length_rev length_takeWhile_le)
  with snoc show ?case
    by (auto simp: conditionRun_snoc)
qed

text \<open>
  Until a frame reports watching, no edge is recorded and \<open>timeStoppedWatching\<close>
  is the zero time of the operator \<open>main\<close> builds.
\<close>

lemma watch_marker_never_watching:
  "list_all (frameNotWatching cfg) frs \<Longrightarrow>
   timeStoppedWatching (fst (frameRunner cfg new_Operator frs)) = 0"
proof (induction frs rule: rev_induct)
  case Nil
  then show ?case by (simp add: new_Operator_def)
next
  case (snoc fr frs)
  from snoc.prems have all: "list_all (frameNotWatching cfg) frs"
    by simp
  then have "frs \<noteq> [] \<Longrightarrow> frameNotWatching cfg (last frs)"
    by (simp add: list_all_iff)
  then have "\<not> IsWatching (prev (fst (frameRunner cfg new_Operator frs)))"
    by (auto simp: prev_after_run)
  with snoc.IH [OF all] show ?case
    by (simp add: frameRunner_snoc_fst frameCycle_timeStoppedWatching)
qed

lemma frameCycle_result_consistent:
  "frameCycle cfg o0 st cw ca = (o1, r) \<Longrightarrow>
   status r = Some st \<and> (AlertWatching r \<longrightarrow> \<not> IsWatching st) \<and> (AlertAngry r \<longrightarrow> IsAngry st)"
  using frameCycle_status [of cfg o0 st cw ca] frameCycle_AlertWatching [of cfg o0 st cw ca]
    frameCycle_AlertAngry [of cfg o0 st cw ca]
  by auto

section \<open>The claims\<close>

text \<open>
  Claim C1. On a checked frame where the operator was and is angry, the angry alert
  should be raised exactly when the time since \<open>timeStartAngry\<close> exceeds
  \<open>angryTimeout\<close>. The source compares the elapsed time with \<open>watchTimeout\<close>
  (lemma \<open>frameCycle_AlertAngry\<close>); \<open>angryTimeout\<close> is declared and bound to its flag
  and read nowhere. With an angry timeout of 10 seconds and a watch timeout of 5
  seconds, an operator angry at \<open>T0\<close> and still angry 7 seconds later gets the angry
  alert, 3 seconds before the angry timeout.
\<close>

theorem angry_alert_compares_watchTimeout:
  "map AlertAngry (snd (frameRunner config_10_5 new_Operator
      [frameAt 0 [facingAngry], frameAt 7 [facingAngry]])) = [False, True]
   \<and> time_Since (clockAngry (frameAt 7 [facingAngry])) (clockAngry (frameAt 0 [facingAngry])) = 7 * Second
   \<and> angryTimeout config_10_5 = 10 * Second"
  by (simp add: run_defs frameAt_def frame640_def T0_def facingAngry_def config_10_5_def)

text \<open>
  Claim C2. A frame whose status is not checked should leave the tracker unchanged.
  It leaves \<open>o.now\<close> and the two markers unchanged and reports no alert (lemma
  \<open>frameCycle_unchecked\<close>), but the assignment to \<open>o.prev\<close> stands after the
  \<open>if status.checked\<close> block: after a frame with a watching, angry face, a frame
  without a face turns \<open>o.prev\<close> from watching and angry to neither.
\<close>

theorem unchecked_frame_overwrites_prev:
  "frameChecked defaultConfig (frameAt 1 []) = False
   \<and> prev (fst (frameRunner defaultConfig new_Operator [frameAt 0 [facingAngry]]))
       = \<lparr>IsWatching = True, IsAngry = True, checked = False\<rparr>
   \<and> prev (fst (frameRunner defaultConfig new_Operator [frameAt 0 [facingAngry], frameAt 1 []]))
       = \<lparr>IsWatching = False, IsAngry = False, checked = False\<rparr>"
  by (simp add: run_defs frameAt_def frame640_def T0_def facingAngry_def frameChecked_def)

text \<open>
  Claim C3. An unchecked frame between two checked angry frames should not stop the
  time accruing against \<open>timeStartAngry\<close>. With both timeouts at 5 seconds: angry
  at \<open>T0\<close> and 3 seconds later, no face at 4 seconds, angry again at 6 seconds. The
  unchecked frame does not write the marker, which is still \<open>T0\<close> after it, but it
  clears \<open>o.prev.IsAngry\<close>; the frame at 6 seconds is then taken for a new edge: it
  sets the marker to its own reading and raises no alert, 6 seconds after the edge.
\<close>

theorem unchecked_frame_restarts_angry_timer:
  "timeStartAngry (fst (frameRunner defaultConfig new_Operator
      [frameAt 0 [facingAngry], frameAt 3 [facingAngry], frameAt 4 []])) = T0
   \<and> time_Since (clockAngry (frameAt 6 [facingAngry])) T0 = 6 * Second
   \<and> angryTimeout defaultConfig = 5 * Second
   \<and> watchTimeout defaultConfig = 5 * Second
   \<and> map AlertAngry (snd (frameRunner defaultConfig new_Operator
      [frameAt 0 [facingAngry], frameAt 3 [facingAngry], frameAt 4 [], frameAt 6 [facingAngry]]))
       = [False, False, False, False]
   \<and> timeStartAngry (fst (frameRunner defaultConfig new_Operator
      [frameAt 0 [facingAngry], frameAt 3 [facingAngry], frameAt 4 [], frameAt 6 [facingAngry]]))
       = T0 + 6 * Second"
  by (simp add: run_defs frameAt_def frame640_def T0_def facingAngry_def)

text \<open>
  Claim C4, as amended. \<open>detectStatus\<close> processes every face inside the frame and
  accumulates: the status is watching exactly when some face inside the frame would
  alone be classified watching, angry exactly when some face inside the frame would
  alone be classified angry, and checked exactly when some face is inside the frame. A
  later face never clears a flag an earlier one set.
\<close>

theorem detectStatus_accumulates:
  "IsWatching (detectStatus cfg m fs) =
     (\<exists>f \<in> set fs. insideFrame m f \<and> IsWatching (detectStatus cfg m [f]))
   \<and> IsAngry (detectStatus cfg m fs) =
     (\<exists>f \<in> set fs. insideFrame m f \<and> IsAngry (detectStatus cfg m [f]))
   \<and> checked (detectStatus cfg m fs) = (\<exists>f \<in> set fs. insideFrame m f)"
proof -
  have w: "IsWatching (detectStatus cfg m fs) =
     (\<exists>f \<in> set fs. insideFrame m f \<and> IsWatching (detectStatus cfg m [f]))"
    using detectLoop_IsWatching [of cfg m new_Status fs]
    by (auto simp: detectStatus_single) (auto simp: detectStatus_def new_Status_def)
  have a: "IsAngry (detectStatus cfg m fs) =
     (\<exists>f \<in> set fs. insideFrame m f \<and> IsAngry (detectStatus cfg m [f]))"
    using detectLoop_IsAngry [of cfg m new_Status fs]
    by (auto simp: detectStatus_single) (auto simp: detectStatus_def new_Status_def)
  have c: "checked (detectStatus cfg m fs) = (\<exists>f \<in> set fs. insideFrame m f)"
    by (simp add: detectStatus_def detectLoop_checked new_Status_def)
  from w a c show ?thesis by blast
qed

text \<open>
  A calm face looking at the machine followed by an angry face turned away: the
  status is watching and angry, though neither face alone is both.
\<close>

theorem detectStatus_accumulates_witness:
  "IsWatching (detectStatus defaultConfig frame640 [facing, awayAngry])
   \<and> IsAngry (detectStatus defaultConfig frame640 [facing, awayAngry])
   \<and> checked (detectStatus defaultConfig frame640 [facing, awayAngry])
   \<and> \<not> IsAngry (detectStatus defaultConfig frame640 [facing])
   \<and> \<not> IsWatching (detectStatus defaultConfig frame640 [awayAngry])"
  using detectStatus_accumulates [of defaultConfig frame640 "[facing, awayAngry]"]
  by (simp add: run_defs frame640_def facing_def awayAngry_def)

text \<open>
  Claim C4 as stated fails: with a face looking at the machine followed by a face
  turned away, both inside the frame, the status is not the one the last face alone
  gives.
\<close>

theorem detectStatus_not_last_region:
  "detectStatus defaultConfig frame640 [facing, away]
     \<noteq> detectStatus defaultConfig frame640 [last (filter (insideFrame frame640) [facing, away])]"
  by (simp add: run_defs frame640_def facing_def away_def)

text \<open>
  Claim C5. An alert should be true only on a cycle where its condition has held for
  longer than its own timeout since the last transition edge. The worker raises alerts
  earlier than that on three runs from the operator of \<open>main\<close>.

  On the very first frame, a checked face turned away raises the watching alert: the
  operator starts with \<open>prev.IsWatching\<close> false and the zero time as
  \<open>timeStoppedWatching\<close>, which the sustained branch reads as an edge recorded long
  ago, so the elapsed time saturates. The angry branch raises nothing on a first
  frame that is angry as well.

  After a watching frame and a frame without a face, a face turned away raises the
  watching alert at once: the faceless frame cleared \<open>o.prev.IsWatching\<close> (the slip
  of claim C2), no edge was recorded, and the marker is still the zero time.

  With an angry timeout of 10 seconds and a watch timeout of 5 seconds, an operator
  angry for 7 seconds gets the angry alert: the angry branch compares with
  \<open>watchTimeout\<close> (the slip of claim C1).
\<close>

theorem alert_before_timeout_elapsed:
  "map AlertWatching (snd (frameRunner defaultConfig new_Operator [frameAt 0 [awayAngry]])) = [True]
   \<and> map AlertAngry (snd (frameRunner defaultConfig new_Operator [frameAt 0 [awayAngry]])) = [False]
   \<and> \<not> heldLongerThan (frameNotWatching defaultConfig) clockWatch (watchTimeout defaultConfig)
         [frameAt 0 [awayAngry]]
   \<and> map AlertWatching (snd (frameRunner defaultConfig new_Operator
         [frameAt 0 [facing], frameAt 1 [], frameAt 2 [away]])) = [False, False, True]
   \<and> \<not> heldLongerThan (frameNotWatching defaultConfig) clockWatch (watchTimeout defaultConfig)
         [frameAt 0 [facing], frameAt 1 [], frameAt 2 [away]]
   \<and> map AlertAngry (snd (frameRunner config_10_5 new_Operator
         [frameAt 0 [facingAngry], frameAt 7 [facingAngry]])) = [False, True]
   \<and> \<not> heldLongerThan (frameAngry config_10_5) clockAngry (angryTimeout config_10_5)
         [frameAt 0 [facingAngry], frameAt 7 [facingAngry]]"
  by (simp add: run_defs frameAt_def frame640_def T0_def facing_def away_def awayAngry_def
      facingAngry_def config_10_5_def heldLongerThan_def conditionRun_def frameNotWatching_def
      frameAngry_def)

text \<open>
  Claim C6. Every result the worker sends carries the status of its frame, and an
  alert in it goes with the condition in that status: the watching alert only with
  \<open>IsWatching\<close> false, the angry alert only with \<open>IsAngry\<close> true. This holds from any
  operator state.
\<close>

theorem alert_implies_condition:
  "r \<in> set (snd (frameRunner cfg o0 frs)) \<Longrightarrow>
   \<exists>st. status r = Some st \<and> (AlertWatching r \<longrightarrow> \<not> IsWatching st) \<and> (AlertAngry r \<longrightarrow> IsAngry st)"
proof (induction frs arbitrary: o0)
  case Nil
  then show ?case by simp
next
  case (Cons fr frs)
  obtain o1 r1 where c: "frameCycle cfg o0 (frameStatus cfg fr) (clockWatch fr) (clockAngry fr) = (o1, r1)"
    by (cases "frameCycle cfg o0 (frameStatus cfg fr) (clockWatch fr) (clockAngry fr)")
  obtain o2 rs where t: "frameRunner cfg o1 frs = (o2, rs)"
    by (cases "frameRunner cfg o1 frs")
  from Cons.prems c t have "r = r1 \<or> r \<in> set (snd (frameRunner cfg o1 frs))"
    by simp
  then show ?case
  proof
    assume "r = r1"
    with frameCycle_result_consistent [OF c] show ?thesis by blast
  next
    assume "r \<in> set (snd (frameRunner cfg o1 frs))"
    then show ?thesis by (rule Cons.IH)
  qed
qed

theorem alert_implies_condition_witness:
  "\<lparr>status = Some \<lparr>IsWatching = False, IsAngry = True, checked = True\<rparr>,
      AlertWatching = True, AlertAngry = True\<rparr>
     \<in> set (snd (frameRunner defaultConfig new_Operator
         [frameAt 0 [facing], frameAt 1 [awayAngry], frameAt 7 [awayAngry]]))
   \<and> (\<exists>st. Some \<lparr>IsWatching = False, IsAngry = True, checked = True\<rparr> = Some st
          \<and> \<not> IsWatching st \<and> IsAngry st)"
  using alert_implies_condition [of "\<lparr>status = Some \<lparr>IsWatching = False, IsAngry = True, checked = True\<rparr>,
      AlertWatching = True, AlertAngry = True\<rparr>" defaultConfig new_Operator
      "[frameAt 0 [facing], frameAt 1 [awayAngry], frameAt 7 [awayAngry]]"]
  by (simp add: run_defs frameAt_def frame640_def T0_def facing_def awayAngry_def)

text \<open>
  Claim C7. For a processed face, the loop body turns \<open>IsWatching\<close> on exactly when
  the yaw and the pitch are both numbers strictly between -22.5 and 22.5 (an infinity
  or NaN is not); a flag that is already on stays on. So the status of a frame with
  one face inside it is watching exactly when both angles are strictly within the
  bounds.
\<close>

theorem watching_iff_angles_within:
  "IsWatching (detectFace cfg s f) =
     (IsWatching s \<or>
      (\<exists>y p. angle_y_fc f = Finite y \<and> angle_p_fc f = Finite p \<and>
             - 22.5 < y \<and> y < 22.5 \<and> - 22.5 < p \<and> p < 22.5))
   \<and> (insideFrame m f \<longrightarrow>
        IsWatching (detectStatus cfg m [f]) =
          (\<exists>y p. angle_y_fc f = Finite y \<and> angle_p_fc f = Finite p \<and>
             - 22.5 < y \<and> y < 22.5 \<and> - 22.5 < p \<and> p < 22.5))"
proof -
  have body: "IsWatching (detectFace cfg s f) =
     (IsWatching s \<or>
      (\<exists>y p. angle_y_fc f = Finite y \<and> angle_p_fc f = Finite p \<and>
             - 22.5 < y \<and> y < 22.5 \<and> - 22.5 < p \<and> p < 22.5))" for s
  proof -
    have "IsWatching (detectFace cfg s f) =
       (IsWatching s \<or>
        ((f64_greater (angle_y_fc f) (Finite (- 22.5)) \<and> f64_less (angle_y_fc f) (Finite 22.5)) \<and>
         (f64_greater (angle_p_fc f) (Finite (- 22.5)) \<and> f64_less (angle_p_fc f) (Finite 22.5))))"
      by (auto simp add: detectFace_def Let_def)
    then show ?thesis
      unfolding within_iff by blast
  qed
  show ?thesis
    using body [of s] body [of new_Status]
    by (simp add: detectStatus_def new_Status_def)
qed

theorem watching_iff_angles_within_witness:
  "insideFrame frame640 facing \<and> IsWatching (detectStatus defaultConfig frame640 [facing])
   \<and> insideFrame frame640 away \<and> \<not> IsWatching (detectStatus defaultConfig frame640 [away])"
  using watching_iff_angles_within [of defaultConfig new_Status facing frame640]
    watching_iff_angles_within [of defaultConfig new_Status away frame640]
  by (simp add: run_defs frame640_def facing_def away_def)

text \<open>
  Claim C8. For a result built from a status and two alert flags,
  \<open>ToMQTTMessage\<close> returns a message that reads back as an object of exactly two
  members, \<open>Watching\<close> with the status's \<open>IsWatching\<close> and \<open>Angry\<close> with its
  \<open>IsAngry\<close>, whatever the alert flags are.
\<close>

theorem payload_round_trip:
  "\<exists>msg. ToMQTTMessage \<lparr>status = Some st, AlertWatching = aw, AlertAngry = aa\<rparr> = Inr msg
     \<and> readPayload msg = Some [(''Watching'', IsWatching st), (''Angry'', IsAngry st)]"
  by (cases "IsWatching st"; cases "IsAngry st")
     (simp_all add: ToMQTTMessage_def fmt_bool_def readPayload_def readBool_def)

text \<open>
  Claim C9. Every result that \<open>Result.String\<close> is called on should have a status.
  \<open>main\<close> starts its loop with \<open>new(Result)\<close>, whose status is nil; when the first
  iteration finds no result from the worker yet, the label is formatted from that
  result and the read of \<open>r.status.IsWatching\<close> faults.
\<close>

theorem initial_result_status_nil:
  "status new_Result = None
   \<and> Result_String new_Result = Inl NilPointerDereference
   \<and> main_labels [None] = [Inl NilPointerDereference]"
  by (simp add: main_labels_def new_Result_def Result_String_def)

text \<open>
  Claim C10. With \<open>statusChecked\<close> false, \<open>getPerformanceInfo\<close> returns 0 for the
  sentiment and the pose network, and for the face network its profile divided by a
  thousandth of the tick frequency.
\<close>

theorem getPerformanceInfo_unchecked:
  "getPerformanceInfo fdiv tickFrequency faceProfile sentProfile poseProfile False =
     \<lparr>FaceNet = fdiv faceProfile (fdiv tickFrequency (Finite 1000)),
      SentNet = Finite 0, PoseNet = Finite 0\<rparr>"
  by (simp add: getPerformanceInfo_def)

end
